theory Spec2Isabelle
  imports Main "HOL-Library.Char_ord" "HOL-Library.List_Lexorder"
begin

section \<open>Remote entities (the fields of the client library's structs that the code reads)\<close>

text \<open>
  Go strings are byte strings and are modelled as \<open>string\<close>; Go's \<open>int\<close> and \<open>int64\<close> are
  modelled as \<open>int\<close> (the only arithmetic of the source is \<open>r.Count - 100\<close> under the
  guard \<open>r.Count > 100\<close>, which cannot wrap). A pointer that the source checks against
  \<open>nil\<close> is an \<open>option\<close>; so is the guild returned by a fetch, which is \<open>nil\<close> when the
  fetch fails. The other pointers (a message's author, a member's user, a reaction's
  emoji, the elements of the fetched slices) are filled by the client library for every
  decoded object and are modelled as plain values. The embed payload is a type parameter
  \<open>'e\<close>: the code only hands it to \<open>json.Marshal\<close>.
\<close>

record User =
  ID :: string
  Username :: string
  Discriminator :: string
  Avatar :: string

record MessageReference =
  MessageID :: string
  ChannelID :: string
  GuildID :: string

record MessageAttachment =
  ID :: string
  URL :: string
  Filename :: string

record Emoji =
  ID :: string
  Name :: string
  RequireColons :: bool

record MessageReactions =
  Count :: int
  Emoji :: Emoji

record MessageReaction =
  UserID :: string
  MessageID :: string
  Emoji :: Emoji
  ChannelID :: string

record 'e Message =
  ID :: string
  Author :: User
  EditedTimestamp :: "string option"
  TTS :: bool
  Content :: string
  WebhookID :: string
  Type :: int
  MessageReference :: "MessageReference option"
  Embeds :: "'e list"
  Attachments :: "MessageAttachment list"
  Reactions :: "MessageReactions list"

record Role =
  ID :: string
  Name :: string
  Color :: int
  Position :: int
  Permissions :: int
  Hoist :: bool

record PermissionOverwrite =
  ID :: string
  Type :: int
  Allow :: int
  Deny :: int

record Channel =
  ID :: string
  GuildID :: string
  Type :: int
  Position :: int
  Name :: string
  Topic :: string
  NSFW :: bool
  ParentID :: string
  Recipients :: "User list"
  Icon :: string
  PermissionOverwrites :: "PermissionOverwrite list"

record Member =
  User :: User
  Nick :: string
  Roles :: "string list"

record Guild =
  ID :: string
  Name :: string
  Icon :: string
  Splash :: string
  OwnerID :: string
  AfkChannelID :: string
  AfkTimeout :: int
  WidgetEnabled :: bool
  WidgetChannelID :: string
  Channels :: "Channel list"
  Roles :: "Role list"
  Emojis :: "Emoji list"

text \<open>The two wrapper structs of package logentry, and its third one.\<close>

record Attachment =
  MessageAttachment :: MessageAttachment
  MessageID :: string

record Reaction =
  MessageReaction :: MessageReaction
  Count :: int

record 'e Embed =
  MessageEmbed :: 'e
  MessageID :: string

text \<open>
  The dynamic type of the \<open>interface{}\<close> argument of \<open>Type\<close> and \<open>Make\<close>: one constructor
  for each case of their type switches, and \<open>EOther\<close> for a value of any other type.
\<close>

datatype 'e entity =
    EMessage "'e Message"
  | EAttachment Attachment
  | EReaction Reaction
  | EEmbed "'e Embed"
  | EGuild Guild
  | EMember Member
  | ERole Role
  | EChannel Channel
  | EPermissionOverwrite PermissionOverwrite
  | EEmoji Emoji
  | EOther

text \<open>A panic of the Go runtime or of the code, as a value.\<close>

datatype error = Panic string | NilDereference

text \<open>A call of \<open>log.Printf\<close>: the format string and its string arguments
  (an error value among the arguments is left out).\<close>

type_synonym logline = "string \<times> string list"

section \<open>Library functions the encoder calls\<close>

text \<open>\<open>strconv.Itoa\<close> and \<open>strconv.FormatInt(_, 10)\<close>: the decimal rendering.\<close>

fun digits :: "nat \<Rightarrow> string" where
  "digits n = (if n < 10 then [char_of (48 + n)] else digits (n div 10) @ [char_of (48 + n mod 10)])"

declare digits.simps [simp del]

definition Itoa :: "int \<Rightarrow> string" where
  "Itoa i = (if i < 0 then CHR ''-'' # digits (nat (- i)) else digits (nat i))"

text \<open>\<open>strings.Join\<close>.\<close>

fun Join :: "string list \<Rightarrow> string \<Rightarrow> string" where
  "Join [] sep = ''''"
| "Join [x] sep = x"
| "Join (x # y # ys) sep = x @ sep @ Join (y # ys) sep"

text \<open>The client library's \<open>Emoji.APIName\<close>.\<close>

definition APIName :: "Emoji \<Rightarrow> string" where
  "APIName e =
     (if Emoji.ID e \<noteq> '''' \<and> Emoji.Name e \<noteq> '''' then Emoji.Name e @ '':'' @ Emoji.ID e
      else if Emoji.Name e \<noteq> '''' then Emoji.Name e
      else Emoji.ID e)"

text \<open>The client library's enumeration constants.\<close>

definition MessageTypeDefault :: int where "MessageTypeDefault = 0"
definition MessageTypeRecipientAdd :: int where "MessageTypeRecipientAdd = 1"
definition MessageTypeRecipientRemove :: int where "MessageTypeRecipientRemove = 2"
definition MessageTypeCall :: int where "MessageTypeCall = 3"
definition MessageTypeChannelNameChange :: int where "MessageTypeChannelNameChange = 4"
definition MessageTypeChannelIconChange :: int where "MessageTypeChannelIconChange = 5"
definition MessageTypeChannelPinnedMessage :: int where "MessageTypeChannelPinnedMessage = 6"
definition MessageTypeGuildMemberJoin :: int where "MessageTypeGuildMemberJoin = 7"
definition MessageTypeReply :: int where "MessageTypeReply = 19"
definition MessageTypeChatInputCommand :: int where "MessageTypeChatInputCommand = 20"

definition ChannelTypeGuildText :: int where "ChannelTypeGuildText = 0"
definition ChannelTypeDM :: int where "ChannelTypeDM = 1"
definition ChannelTypeGuildVoice :: int where "ChannelTypeGuildVoice = 2"
definition ChannelTypeGroupDM :: int where "ChannelTypeGroupDM = 3"
definition ChannelTypeGuildCategory :: int where "ChannelTypeGuildCategory = 4"
definition ChannelTypeGuildNews :: int where "ChannelTypeGuildNews = 5"
definition ChannelTypeGuildStore :: int where "ChannelTypeGuildStore = 6"

definition PermissionOverwriteTypeRole :: int where "PermissionOverwriteTypeRole = 0"
definition PermissionOverwriteTypeMember :: int where "PermissionOverwriteTypeMember = 1"

section \<open>Package logentry: the row encoder\<close>

definition HTime :: nat where "HTime = 0"
definition HFetchType :: nat where "HFetchType = 1"
definition HOp :: nat where "HOp = 2"
definition HType :: nat where "HType = 3"
definition HID :: nat where "HID = 4"

definition idsFromUsers :: "User list \<Rightarrow> string list" where
  "idsFromUsers users = map User.ID users"

definition formatBool :: "string \<Rightarrow> bool \<Rightarrow> string" where
  "formatBool name variable = (if variable then name else '''')"

text \<open>\<open>formatMessageType\<close> returns the rendering and the lines it logs
  (the default case logs before it returns).\<close>

definition formatMessageType :: "int \<Rightarrow> string \<times> logline list" where
  "formatMessageType t =
     (if t = MessageTypeDefault then ('''', [])
      else if t = MessageTypeRecipientAdd then (''recipient_add'', [])
      else if t = MessageTypeRecipientRemove then (''recipient_remove'', [])
      else if t = MessageTypeCall then (''call'', [])
      else if t = MessageTypeChannelNameChange then (''channel_name_change'', [])
      else if t = MessageTypeChannelIconChange then (''channel_icon_change'', [])
      else if t = MessageTypeChannelPinnedMessage then (''channel_pinned_message'', [])
      else if t = MessageTypeGuildMemberJoin then (''guild_member_join'', [])
      else if t = MessageTypeReply then (''reply'', [])
      else if t = MessageTypeChatInputCommand then (''application_command'', [])
      else (''unknown-'' @ Itoa t, [(''unsupported message type %v'', [Itoa t])]))"

definition formatChannelType :: "int \<Rightarrow> string" where
  "formatChannelType t =
     (if t = ChannelTypeGuildText then ''text''
      else if t = ChannelTypeGuildVoice then ''voice''
      else if t = ChannelTypeGuildCategory then ''category''
      else if t = ChannelTypeDM then ''dm''
      else if t = ChannelTypeGroupDM then ''groupdm''
      else if t = ChannelTypeGuildNews then ''news''
      else if t = ChannelTypeGuildStore then ''store''
      else ''invalid'')"

text \<open>The default case calls \<open>log.Panicf\<close>, which panics: the \<open>return\<close> after it is
  never reached.\<close>

definition formatPermOverwriteType :: "int \<Rightarrow> error + string" where
  "formatPermOverwriteType t =
     (if t = PermissionOverwriteTypeRole then Inr ''role''
      else if t = PermissionOverwriteTypeMember then Inr ''member''
      else Inl (Panic (''unsupported permission overwrite type '' @ Itoa t)))"

text \<open>\<open>Type\<close> (the type switch with its panicking default). The constant is named
  \<open>Type_of\<close>, as \<open>Type\<close> is a field of three records.\<close>

fun Type_of :: "'e entity \<Rightarrow> error + string" where
  "Type_of (EMessage _) = Inr ''message''"
| "Type_of (EAttachment _) = Inr ''attachment''"
| "Type_of (EReaction _) = Inr ''reaction''"
| "Type_of (EEmbed _) = Inr ''embed''"
| "Type_of (EGuild _) = Inr ''guild''"
| "Type_of (EMember _) = Inr ''member''"
| "Type_of (ERole _) = Inr ''role''"
| "Type_of (EChannel _) = Inr ''channel''"
| "Type_of (EPermissionOverwrite _) = Inr ''permoverwrite''"
| "Type_of (EEmoji _) = Inr ''emoji''"
| "Type_of EOther = Inl (Panic ''unsupported type'')"

text \<open>
  The result of a call of \<open>Make\<close> that returns: the row, the entity as the call leaves it
  (the member case sorts the role ids of its argument in place, through the pointer), and
  the lines logged on the way.
\<close>

type_synonym 'e encoded = "string list \<times> 'e entity \<times> logline list"

text \<open>
  \<open>Make_row\<close> is the type switch of \<open>Make\<close>, which computes \<open>row\<close>. Its first argument
  stands for \<open>json.Marshal\<close> on the embed payload (\<open>None\<close>: it returns an error).
\<close>

fun Make_row :: "('e \<Rightarrow> string option) \<Rightarrow> 'e entity \<Rightarrow> error + 'e encoded" where
  "Make_row jm (EMessage v) =
     (let ref = (case MessageReference v of
                   None \<Rightarrow> ['''', '''', '''']
                 | Some r \<Rightarrow> [MessageReference.GuildID r, MessageReference.ChannelID r,
                              MessageReference.MessageID r]);
          edited_time = (case EditedTimestamp v of None \<Rightarrow> '''' | Some t \<Rightarrow> t);
          mt = formatMessageType (Message.Type v);
          row = [Message.ID v,
                 User.ID (Author v),
                 edited_time,
                 formatBool ''tts'' (TTS v),
                 Content v,
                 formatBool ''webhook'' (WebhookID v \<noteq> ''''),
                 Username (Author v),
                 User.Avatar (Author v),
                 fst mt,
                 ref ! 0,
                 ref ! 1,
                 ref ! 2];
          row = (if WebhookID v = '''' then row[6 := '''', 7 := ''''] else row)
      in Inr (row, EMessage v, snd mt))"
| "Make_row jm (EAttachment v) =
     Inr ([MessageAttachment.ID (MessageAttachment v), Attachment.MessageID v,
           Filename (MessageAttachment v)], EAttachment v, [])"
| "Make_row jm (EReaction v) =
     Inr ([UserID (MessageReaction v),
           MessageReaction.MessageID (MessageReaction v),
           APIName (MessageReaction.Emoji (MessageReaction v)),
           Itoa (Reaction.Count v)], EReaction v, [])"
| "Make_row jm (EEmbed v) =
     (case jm (MessageEmbed v) of
        None \<Rightarrow> Inl (Panic ''json'')
      | Some j \<Rightarrow> Inr ([Embed.MessageID v, j], EEmbed v, []))"
| "Make_row jm (EGuild v) =
     Inr ([Guild.ID v,
           Guild.Name v,
           Guild.Icon v,
           Splash v,
           OwnerID v,
           AfkChannelID v,
           Itoa (AfkTimeout v),
           formatBool ''embeddable'' (WidgetEnabled v),
           WidgetChannelID v], EGuild v, [])"
| "Make_row jm (EMember v) =
     (let v = v\<lparr>Member.Roles := sort (Member.Roles v)\<rparr>
      in Inr ([User.ID (User v),
               Username (User v),
               Discriminator (User v),
               User.Avatar (User v),
               Nick v,
               Join (Member.Roles v) '',''], EMember v, []))"
| "Make_row jm (ERole v) =
     Inr ([Role.ID v,
           Role.Name v,
           Itoa (Color v),
           Itoa (Role.Position v),
           Itoa (Permissions v),
           formatBool ''hoist'' (Hoist v)], ERole v, [])"
| "Make_row jm (EChannel v) =
     Inr ([Channel.ID v,
           formatChannelType (Channel.Type v),
           Itoa (Channel.Position v),
           Channel.Name v,
           Topic v,
           formatBool ''nsfw'' (NSFW v),
           ParentID v,
           Join (idsFromUsers (Recipients v)) '','',
           Channel.Icon v], EChannel v, [])"
| "Make_row jm (EPermissionOverwrite v) =
     (case formatPermOverwriteType (PermissionOverwrite.Type v) of
        Inl e \<Rightarrow> Inl e
      | Inr t \<Rightarrow> Inr ([PermissionOverwrite.ID v, t, Itoa (Allow v), Itoa (Deny v)],
                      EPermissionOverwrite v, []))"
| "Make_row jm (EEmoji v) =
     Inr ([Emoji.ID v,
           Emoji.Name v,
           formatBool ''nocolons'' (\<not> RequireColons v)], EEmoji v, [])"
| "Make_row jm EOther = Inl (Panic ''unsupported type'')"

text \<open>
  \<open>Make\<close>: the switch, then the header in front of the row. The argument \<open>now\<close> is what
  \<open>Timestamp()\<close>, that is the formatted reading of the clock, returns at this call.
\<close>

definition Make ::
  "('e \<Rightarrow> string option) \<Rightarrow> string \<Rightarrow> string \<Rightarrow> string \<Rightarrow> 'e entity \<Rightarrow> error + 'e encoded" where
  "Make jm now ftype op v =
     (case Make_row jm v of
        Inl e \<Rightarrow> Inl e
      | Inr (row, v', lg) \<Rightarrow>
          (case Type_of v' of
             Inl e \<Rightarrow> Inl e
           | Inr t \<Rightarrow> Inr ([now, ftype, op, t] @ row, v', lg)))"

section \<open>The environment and the state of a run\<close>

text \<open>
  Every interaction with the outside (a call of the remote client, a download) is an
  event; the events of a run so far are its \<open>trace\<close>.
\<close>

datatype event =
    d_Guild string
  | d_GuildMembers string string int
  | d_ChannelMessages string int string string string
  | d_MessageReactions string string string int
  | cdndl_Icon string string
  | cdndl_Splash string string
  | cdndl_Emoji string
  | cdndl_Avatar User
  | cdndl_Attachment string

text \<open>
  The environment answers each interaction. A remote call returns a value and an error
  (\<open>True\<close>: the error is not \<open>nil\<close>), as in Go; its answer may depend on the arguments and on
  the number of interactions before it, so that an answer can change during a run (a
  transient failure). The clock and the two file-system failures are answered the same
  way; \<open>json\<close> stands for \<open>json.Marshal\<close> on an embed payload.
\<close>

record 'e env =
  Guild_fetch :: "nat \<Rightarrow> string \<Rightarrow> Guild option \<times> bool"
  GuildMembers_fetch :: "nat \<Rightarrow> string \<Rightarrow> string \<Rightarrow> int \<Rightarrow> Member list \<times> bool"
  ChannelMessages_fetch ::
    "nat \<Rightarrow> string \<Rightarrow> int \<Rightarrow> string \<Rightarrow> string \<Rightarrow> string \<Rightarrow> 'e Message list \<times> bool"
  MessageReactions_fetch :: "nat \<Rightarrow> string \<Rightarrow> string \<Rightarrow> string \<Rightarrow> int \<Rightarrow> User list \<times> bool"
  cdndl_err :: "nat \<Rightarrow> event \<Rightarrow> bool"
  clock :: "nat \<Rightarrow> string"
  json :: "'e \<Rightarrow> string option"
  MkdirAll_err :: "string \<Rightarrow> bool"
  OpenFile_err :: "string \<Rightarrow> bool"

text \<open>
  The state: the log files (a file is the list of its rows, a row the list of its
  columns), the run-scoped map \<open>fetchedGuilds\<close> that \<open>Pull\<close> receives by pointer (a Go map
  answers \<open>false\<close> for an absent key), the trace, and the lines given to \<open>log.Printf\<close>.
\<close>

record world =
  files :: "string \<rightharpoonup> string list list"
  fetchedGuilds :: "string \<Rightarrow> bool"
  trace :: "event list"
  logs :: "logline list"

type_synonym 'a result = "(error + 'a) \<times> world"

definition tick :: "world \<Rightarrow> nat" where
  "tick w = length (trace w)"

definition emit :: "event \<Rightarrow> world \<Rightarrow> world" where
  "emit e w = w\<lparr>trace := trace w @ [e]\<rparr>"

definition log_Printf :: "string \<Rightarrow> string list \<Rightarrow> world \<Rightarrow> world" where
  "log_Printf fmt args w = w\<lparr>logs := logs w @ [(fmt, args)]\<rparr>"

definition content :: "world \<Rightarrow> string \<Rightarrow> string list list" where
  "content w p = (case files w p of None \<Rightarrow> [] | Some rows \<Rightarrow> rows)"

text \<open>\<open>os.Stat\<close> returns no error.\<close>

definition Stat_ok :: "string \<Rightarrow> world \<Rightarrow> bool" where
  "Stat_ok p w = (files w p \<noteq> None)"

text \<open>\<open>os.OpenFile\<close> with \<open>O_CREATE|O_WRONLY|O_APPEND\<close>: a missing file is created empty, an
  existing one keeps its content. The result is the error flag and the state.\<close>

definition OpenFile :: "'e env \<Rightarrow> string \<Rightarrow> world \<Rightarrow> bool \<times> world" where
  "OpenFile env p w =
     (if OpenFile_err env p then (True, w)
      else (False, w\<lparr>files := (files w)(p \<mapsto> content w p)\<rparr>))"

text \<open>A download of package cdndl: the event, and whether it returned an error.\<close>

definition cdndl :: "'e env \<Rightarrow> event \<Rightarrow> world \<Rightarrow> bool \<times> world" where
  "cdndl env e w = (cdndl_err env (tick w) e, emit e w)"

text \<open>\<open>for _, x := range xs\<close> with a body that may panic.\<close>

fun forEach :: "('a \<Rightarrow> world \<Rightarrow> unit result) \<Rightarrow> 'a list \<Rightarrow> world \<Rightarrow> unit result" where
  "forEach body [] w = (Inr (), w)"
| "forEach body (x # xs) w =
     (case body x w of
        (Inl e, w') \<Rightarrow> (Inl e, w')
      | (Inr _, w') \<Rightarrow> forEach body xs w')"

section \<open>Packages logformat and logutil, and the entry functions of logentry\<close>

text \<open>
  Modelled from the spec: \<open>logformat.Write\<close> is not among the sources. It appends the row
  as one line to the open file (the Log Writer: file growth only); the caller ignores
  what it returns. The file handle is the path it was opened with.
\<close>

definition Write :: "string \<Rightarrow> string list \<Rightarrow> world \<Rightarrow> world" where
  "Write f row w = w\<lparr>files := (files w)(f \<mapsto> content w f @ [row])\<rparr>"

text \<open>
  Modelled from the spec: the entry functions \<open>logentry.Guild\<close>, \<open>logentry.Channel\<close>, ...
  that package logpull calls are not among the sources. Each is the Row Encoder, that is
  \<open>Make\<close>, on the entity, with the clock read at the call and the encoder's log lines
  written out. The entity as \<open>Make\<close> leaves it is dropped: no caller reads a member's
  role ids after encoding it.
\<close>

definition entry :: "'e env \<Rightarrow> string \<Rightarrow> string \<Rightarrow> 'e entity \<Rightarrow> world \<Rightarrow> (string list) result" where
  "entry env ftype op v w =
     (case Make (json env) (clock env (tick w)) ftype op v of
        Inl e \<Rightarrow> (Inl e, w)
      | Inr (row, v', lg) \<Rightarrow> (Inr row, w\<lparr>logs := logs w @ lg\<rparr>))"

definition logentry_Guild :: "'e env \<Rightarrow> string \<Rightarrow> string \<Rightarrow> Guild \<Rightarrow> world \<Rightarrow> (string list) result" where
  "logentry_Guild env ftype op g = entry env ftype op (EGuild g)"

definition logentry_Channel :: "'e env \<Rightarrow> string \<Rightarrow> string \<Rightarrow> Channel \<Rightarrow> world \<Rightarrow> (string list) result" where
  "logentry_Channel env ftype op c = entry env ftype op (EChannel c)"

definition logentry_PermOverwrite ::
  "'e env \<Rightarrow> string \<Rightarrow> string \<Rightarrow> PermissionOverwrite \<Rightarrow> world \<Rightarrow> (string list) result" where
  "logentry_PermOverwrite env ftype op ov = entry env ftype op (EPermissionOverwrite ov)"

definition logentry_Role :: "'e env \<Rightarrow> string \<Rightarrow> string \<Rightarrow> Role \<Rightarrow> world \<Rightarrow> (string list) result" where
  "logentry_Role env ftype op r = entry env ftype op (ERole r)"

definition logentry_Emoji :: "'e env \<Rightarrow> string \<Rightarrow> string \<Rightarrow> Emoji \<Rightarrow> world \<Rightarrow> (string list) result" where
  "logentry_Emoji env ftype op e = entry env ftype op (EEmoji e)"

definition logentry_User :: "'e env \<Rightarrow> string \<Rightarrow> string \<Rightarrow> Member \<Rightarrow> world \<Rightarrow> (string list) result" where
  "logentry_User env ftype op m = entry env ftype op (EMember m)"

definition logentry_Message ::
  "'e env \<Rightarrow> string \<Rightarrow> string \<Rightarrow> 'e Message \<Rightarrow> world \<Rightarrow> (string list) result" where
  "logentry_Message env ftype op m = entry env ftype op (EMessage m)"

definition logentry_Embed ::
  "'e env \<Rightarrow> string \<Rightarrow> string \<Rightarrow> string \<Rightarrow> 'e \<Rightarrow> world \<Rightarrow> (string list) result" where
  "logentry_Embed env ftype op mid e =
     entry env ftype op (EEmbed \<lparr>MessageEmbed = e, MessageID = mid\<rparr>)"

definition logentry_Attachment ::
  "'e env \<Rightarrow> string \<Rightarrow> string \<Rightarrow> string \<Rightarrow> MessageAttachment \<Rightarrow> world \<Rightarrow> (string list) result" where
  "logentry_Attachment env ftype op mid a =
     entry env ftype op (EAttachment \<lparr>MessageAttachment = a, MessageID = mid\<rparr>)"

text \<open>Each reaction row stands for one reaction: the count column is 1.\<close>

definition logentry_Reaction ::
  "'e env \<Rightarrow> string \<Rightarrow> string \<Rightarrow> MessageReaction \<Rightarrow> world \<Rightarrow> (string list) result" where
  "logentry_Reaction env ftype op r =
     entry env ftype op (EReaction \<lparr>MessageReaction = r, Count = 1\<rparr>)"

text \<open>The statement \<open>logformat.Write(f, logentry.X(...))\<close>.\<close>

definition Write_entry :: "string \<Rightarrow> (string list) result \<Rightarrow> unit result" where
  "Write_entry f r =
     (case r of
        (Inl e, w) \<Rightarrow> (Inl e, w)
      | (Inr row, w) \<Rightarrow> (Inr (), Write f row w))"

text \<open>
  The EntryCache, \<open>map[string]map[string][]string\<close>: from entity type to entity id to the
  last row of that entity. Indexing a Go map at an absent key gives the \<open>nil\<close> slice.
\<close>

type_synonym EntryCache = "string \<rightharpoonup> (string \<rightharpoonup> string list)"

definition lookup :: "EntryCache \<Rightarrow> string \<Rightarrow> string \<Rightarrow> string list" where
  "lookup cache t i =
     (case cache t of
        None \<Rightarrow> []
      | Some m \<Rightarrow> (case m i of None \<Rightarrow> [] | Some row \<Rightarrow> row))"

text \<open>
  Modelled from the spec: \<open>logutil.Equals\<close> is not among the sources. The Change Detector:
  exact equality of the field tuples, the header columns of the fresh entry not compared,
  and absence from the cache counts as a difference.
\<close>

definition Equals :: "string list \<Rightarrow> string list \<Rightarrow> bool" where
  "Equals cached e = (cached \<noteq> [] \<and> cached = drop HID e)"

text \<open>
  Modelled from the spec: \<open>logutil.GuildCache\<close> is not among the sources. The State Cache
  Reconstructor: the file is replayed top to bottom and each row overwrites the slot of
  its entity type and id with its field tuple (last write wins; columns beyond the
  type's schema are ignored). A row with an unknown type tag or with too few columns for
  its type is a structural error.
\<close>

definition columns :: "string \<Rightarrow> nat option" where
  "columns t =
     (if t = ''message'' then Some 12
      else if t = ''attachment'' then Some 3
      else if t = ''reaction'' then Some 4
      else if t = ''embed'' then Some 2
      else if t = ''guild'' then Some 9
      else if t = ''member'' then Some 6
      else if t = ''role'' then Some 6
      else if t = ''channel'' then Some 9
      else if t = ''permoverwrite'' then Some 4
      else if t = ''emoji'' then Some 3
      else None)"

fun replay :: "string list list \<Rightarrow> EntryCache \<Rightarrow> EntryCache option" where
  "replay [] cache = Some cache"
| "replay (row # rows) cache =
     (if length row \<le> HID then None
      else (case columns (row ! HType) of
              None \<Rightarrow> None
            | Some n \<Rightarrow>
                if length row < HID + n then None
                else replay rows
                       (cache(row ! HType \<mapsto>
                          (case cache (row ! HType) of None \<Rightarrow> Map.empty | Some m \<Rightarrow> m)
                            (row ! HID \<mapsto> take n (drop HID row))))))"

definition GuildCache :: "string \<Rightarrow> EntryCache \<Rightarrow> world \<Rightarrow> bool \<times> EntryCache" where
  "GuildCache filename cache w =
     (case replay (content w filename) cache of
        None \<Rightarrow> (True, cache)
      | Some cache' \<Rightarrow> (False, cache'))"

text \<open>
  Modelled from the spec: \<open>logutil.LastMessageID\<close> is not among the sources. The Resume
  Cursor Resolver: the id of the last row tagged as a message; an error when the file
  has no message row.
\<close>

definition LastMessageID :: "string \<Rightarrow> world \<Rightarrow> string \<times> bool" where
  "LastMessageID filename w =
     (case filter (\<lambda>row. HID < length row \<and> row ! HType = ''message'') (content w filename) of
        [] \<Rightarrow> ('''', True)
      | r # rs \<Rightarrow> (last (r # rs) ! HID, False))"

section \<open>Package logpull: the guild sync\<close>

text \<open>
  The bodies of the loops of \<open>pullGuild\<close>, innermost first. \<open>f\<close> is the open guild file,
  \<open>gid\<close> the parameter \<open>id\<close> of the source (in HOL \<open>id\<close> is the identity function).
  Every write is under the guard \<open>!logutil.Equals(cache[...][...], entry)\<close>.
\<close>

definition pullGuild_overwrite ::
  "'e env \<Rightarrow> string \<Rightarrow> EntryCache \<Rightarrow> PermissionOverwrite \<Rightarrow> world \<Rightarrow> unit result" where
  "pullGuild_overwrite env f cache ov w =
     (case logentry_PermOverwrite env ''history'' ''add'' ov w of
        (Inl e, w) \<Rightarrow> (Inl e, w)
      | (Inr oEntry, w) \<Rightarrow>
          (Inr (),
           if \<not> Equals (lookup cache ''permoverwrite'' (PermissionOverwrite.ID ov)) oEntry
           then Write f oEntry w else w))"

definition pullGuild_channel ::
  "'e env \<Rightarrow> string \<Rightarrow> EntryCache \<Rightarrow> Channel \<Rightarrow> world \<Rightarrow> unit result" where
  "pullGuild_channel env f cache c w =
     (case logentry_Channel env ''history'' ''add'' c w of
        (Inl e, w) \<Rightarrow> (Inl e, w)
      | (Inr cEntry, w) \<Rightarrow>
          forEach (pullGuild_overwrite env f cache) (PermissionOverwrites c)
            (if \<not> Equals (lookup cache ''channel'' (Channel.ID c)) cEntry
             then Write f cEntry w else w))"

definition pullGuild_role ::
  "'e env \<Rightarrow> string \<Rightarrow> EntryCache \<Rightarrow> Role \<Rightarrow> world \<Rightarrow> unit result" where
  "pullGuild_role env f cache r w =
     (case logentry_Role env ''history'' ''add'' r w of
        (Inl e, w) \<Rightarrow> (Inl e, w)
      | (Inr rEntry, w) \<Rightarrow>
          (Inr (),
           if \<not> Equals (lookup cache ''role'' (Role.ID r)) rEntry
           then Write f rEntry w else w))"

definition pullGuild_emoji ::
  "'e env \<Rightarrow> string \<Rightarrow> string \<Rightarrow> EntryCache \<Rightarrow> Emoji \<Rightarrow> world \<Rightarrow> unit result" where
  "pullGuild_emoji env f gid cache e w =
     (let (err, w) = cdndl env (cdndl_Emoji (Emoji.ID e)) w;
          w = (if err then log_Printf ''[%s] error downloading emoji %s: %v'' [gid, Emoji.ID e] w
               else w)
      in case logentry_Emoji env ''history'' ''add'' e w of
           (Inl e, w) \<Rightarrow> (Inl e, w)
         | (Inr eEntry, w) \<Rightarrow>
             (Inr (),
              if \<not> Equals (lookup cache ''emoji'' (Emoji.ID e)) eEntry
              then Write f eEntry w else w))"

definition pullGuild_member ::
  "'e env \<Rightarrow> string \<Rightarrow> string \<Rightarrow> EntryCache \<Rightarrow> Member \<Rightarrow> world \<Rightarrow> unit result" where
  "pullGuild_member env f gid cache m w =
     (let w = (if User.Avatar (User m) \<noteq> '''' then
                 (let (err, w) = cdndl env (cdndl_Avatar (User m)) w
                  in if err
                     then log_Printf ''[%s] error downloading avatar for user %s: %v''
                            [gid, User.ID (User m)] w
                     else w)
               else w)
      in case logentry_User env ''history'' ''add'' m w of
           (Inl e, w) \<Rightarrow> (Inl e, w)
         | (Inr uEntry, w) \<Rightarrow>
             (Inr (),
              if \<not> Equals (lookup cache ''user'' (User.ID (User m))) uEntry
              then Write f uEntry w else w))"

text \<open>
  The member loop \<open>for { ... }\<close>, which has no bound of its own: the first argument is
  fuel, and \<open>None\<close> says that the fuel ran out before the loop ended. On an error of the
  fetch the loop logs and \<open>continue\<close>s, with \<open>after\<close> as it was.
\<close>

fun pullGuild_loop ::
  "nat \<Rightarrow> 'e env \<Rightarrow> string \<Rightarrow> string \<Rightarrow> EntryCache \<Rightarrow> string \<Rightarrow> world \<Rightarrow> (unit result) option" where
  "pullGuild_loop 0 env f gid cache after w = None"
| "pullGuild_loop (Suc n) env f gid cache after w =
     (let (members, err) = GuildMembers_fetch env (tick w) gid after 1000;
          w = emit (d_GuildMembers gid after 1000) w
      in if err then
           pullGuild_loop n env f gid cache after
             (log_Printf ''[%s] error getting members from %s: %v'' [gid, after] w)
         else if length members = 0 then Some (Inr (), w)
         else (case forEach (pullGuild_member env f gid cache) members w of
                 (Inl e, w) \<Rightarrow> Some (Inl e, w)
               | (Inr _, w) \<Rightarrow>
                   (let after = User.ID (User (last members))
                    in pullGuild_loop n env f gid cache after
                         (log_Printf ''[%s] downloaded %d members, last gid %s with name %s''
                            [gid, Itoa (int (length members)), after,
                             Username (User (last members))] w))))"

text \<open>The branch of \<open>pullGuild\<close> for a guild fetched without error (lines 64 to 81).\<close>

definition pullGuild_info ::
  "'e env \<Rightarrow> string \<Rightarrow> string \<Rightarrow> EntryCache \<Rightarrow> Guild \<Rightarrow> world \<Rightarrow> unit result" where
  "pullGuild_info env f gid cache guild w =
     (let w = (if Guild.Icon guild \<noteq> '''' then
                 (let (err, w) = cdndl env (cdndl_Icon gid (Guild.Icon guild)) w
                  in if err then log_Printf ''[%s] error downloading the guild icon: %v'' [gid] w
                     else w)
               else w);
          w = (if Splash guild \<noteq> '''' then
                 (let (err, w) = cdndl env (cdndl_Splash gid (Splash guild)) w
                  in if err then log_Printf ''[%s] error downloading the guild splash: %v'' [gid] w
                     else w)
               else w)
      in case logentry_Guild env ''history'' ''add'' guild w of
           (Inl e, w) \<Rightarrow> (Inl e, w)
         | (Inr gEntry, w) \<Rightarrow>
             (Inr (),
              if \<not> Equals (lookup cache ''guild'' gid) gEntry
              then Write f gEntry w else w))"

text \<open>
  \<open>pullGuild\<close>. The client returns a \<open>nil\<close> guild with its error; the loops after the
  \<open>if\<close> read \<open>guild.Channels\<close> whatever the error was, which on a \<open>nil\<close> guild is a nil
  pointer dereference.
\<close>

definition pullGuild ::
  "nat \<Rightarrow> 'e env \<Rightarrow> string \<Rightarrow> EntryCache \<Rightarrow> world \<Rightarrow> (unit result) option" where
  "pullGuild fuel env gid cache w =
     (let filename = ''channels/'' @ gid @ ''/guild.tsv''
      in case OpenFile env filename w of
           (True, w) \<Rightarrow> Some (Inr (), log_Printf ''[%s] error opening the log file: %v'' [gid] w)
         | (False, w) \<Rightarrow>
             (let (guild, err) = Guild_fetch env (tick w) gid;
                  w = emit (d_Guild gid) w
              in case (if err then (Inr (), log_Printf ''[%s] error getting guild info: %v'' [gid] w)
                       else (case guild of
                               None \<Rightarrow> (Inl NilDereference, w)
                             | Some g \<Rightarrow> pullGuild_info env filename gid cache g w)) of
                   (Inl e, w) \<Rightarrow> Some (Inl e, w)
                 | (Inr _, w) \<Rightarrow>
                     (case guild of
                        None \<Rightarrow> Some (Inl NilDereference, w)
                      | Some g \<Rightarrow>
                          (case forEach (pullGuild_channel env filename cache) (Channels g) w of
                             (Inl e, w) \<Rightarrow> Some (Inl e, w)
                           | (Inr _, w) \<Rightarrow>
                               (case forEach (pullGuild_role env filename cache) (Guild.Roles g) w of
                                  (Inl e, w) \<Rightarrow> Some (Inl e, w)
                                | (Inr _, w) \<Rightarrow>
                                    (case forEach (pullGuild_emoji env filename gid cache) (Emojis g) w of
                                       (Inl e, w) \<Rightarrow> Some (Inl e, w)
                                     | (Inr _, w) \<Rightarrow>
                                         pullGuild_loop fuel env filename gid cache ''0'' w))))))"

section \<open>Package logpull: the channel pull\<close>

text \<open>The body of the loop over the reactions of a message (lines 187 to 212); \<open>cid\<close> is
  the parameter \<open>id\<close> of \<open>pullChannel\<close>.\<close>

definition pullChannel_reaction ::
  "'e env \<Rightarrow> string \<Rightarrow> string \<Rightarrow> string \<Rightarrow> 'e Message \<Rightarrow> MessageReactions \<Rightarrow> world \<Rightarrow> unit result" where
  "pullChannel_reaction env f gid cid m r w =
     (let (users, err) =
            MessageReactions_fetch env (tick w) cid (Message.ID m)
              (APIName (MessageReactions.Emoji r)) 100;
          w = emit (d_MessageReactions cid (Message.ID m) (APIName (MessageReactions.Emoji r)) 100) w;
          w = (if err
               then log_Printf ''[%s/%s] error getting users for reaction %s to %s: %v''
                      [gid, cid, APIName (MessageReactions.Emoji r), Message.ID m] w
               else w)
      in case forEach
                (\<lambda>u w. Write_entry f
                   (logentry_Reaction env ''history'' ''add''
                      \<lparr>UserID = User.ID u, MessageID = Message.ID m,
                       Emoji = MessageReactions.Emoji r, ChannelID = cid\<rparr> w))
                users w of
           (Inl e, w) \<Rightarrow> (Inl e, w)
         | (Inr _, w) \<Rightarrow>
             if MessageReactions.Count r > 100 then
               forEach
                 (\<lambda>i w. Write_entry f
                    (logentry_Reaction env ''history'' ''add''
                       \<lparr>UserID = '''', MessageID = Message.ID m,
                        Emoji = MessageReactions.Emoji r, ChannelID = cid\<rparr> w))
                 [0 ..< nat (MessageReactions.Count r - 100)] w
             else (Inr (), w))"

text \<open>The body of the loop over the attachments of a message (lines 178 to 183).\<close>

definition pullChannel_attachment ::
  "'e env \<Rightarrow> string \<Rightarrow> string \<Rightarrow> string \<Rightarrow> 'e Message \<Rightarrow> MessageAttachment \<Rightarrow> world \<Rightarrow> unit result" where
  "pullChannel_attachment env f gid cid m a w =
     (let w = log_Printf ''[%s/%s] downloading attachment %s'' [gid, cid, MessageAttachment.ID a] w;
          (err, w) = cdndl env (cdndl_Attachment (URL a)) w;
          w = (if err
               then log_Printf ''[%s/%s] error downloading attachment %s: %v''
                      [gid, cid, MessageAttachment.ID a] w
               else w)
      in Write_entry f (logentry_Attachment env ''history'' ''add'' (Message.ID m) a w))"

text \<open>The body of the loop over the messages of a page (lines 171 to 213).\<close>

definition pullChannel_message ::
  "'e env \<Rightarrow> string \<Rightarrow> string \<Rightarrow> string \<Rightarrow> 'e Message \<Rightarrow> world \<Rightarrow> unit result" where
  "pullChannel_message env f gid cid m w =
     (case Write_entry f (logentry_Message env ''history'' ''add'' m w) of
        (Inl e, w) \<Rightarrow> (Inl e, w)
      | (Inr _, w) \<Rightarrow>
          (case forEach
                  (\<lambda>e w. Write_entry f (logentry_Embed env ''history'' ''add'' (Message.ID m) e w))
                  (Embeds m) w of
             (Inl e, w) \<Rightarrow> (Inl e, w)
           | (Inr _, w) \<Rightarrow>
               (case forEach (pullChannel_attachment env f gid cid m) (Attachments m) w of
                  (Inl e, w) \<Rightarrow> (Inl e, w)
                | (Inr _, w) \<Rightarrow>
                    forEach (pullChannel_reaction env f gid cid m) (Reactions m) w)))"

text \<open>
  The page loop \<open>for { ... }\<close>, with fuel as above. An error of the fetch is logged and
  nothing else; the page is walked from its last message to its first.
\<close>

fun pullChannel_loop ::
  "nat \<Rightarrow> 'e env \<Rightarrow> string \<Rightarrow> string \<Rightarrow> string \<Rightarrow> string \<Rightarrow> world \<Rightarrow> (unit result) option" where
  "pullChannel_loop 0 env f gid cid after w = None"
| "pullChannel_loop (Suc n) env f gid cid after w =
     (let (msgs, err) = ChannelMessages_fetch env (tick w) cid 100 '''' after '''';
          w = emit (d_ChannelMessages cid 100 '''' after '''') w;
          w = (if err
               then log_Printf ''[%s/%s] error getting messages from %s: %v'' [gid, cid, after] w
               else w)
      in case msgs of
           [] \<Rightarrow> Some (Inr (), w)
         | m0 # _ \<Rightarrow>
             (let after = Message.ID m0
              in case forEach (pullChannel_message env f gid cid) (rev msgs) w of
                   (Inl e, w) \<Rightarrow> Some (Inl e, w)
                 | (Inr _, w) \<Rightarrow>
                     pullChannel_loop n env f gid cid after
                       (log_Printf ''[%s/%s] downloaded %d messages, last cid %s with content %s''
                          [gid, cid, Itoa (int (length msgs)), Message.ID m0, Content m0] w)))"

definition pullChannel ::
  "nat \<Rightarrow> 'e env \<Rightarrow> string \<Rightarrow> string \<Rightarrow> string \<Rightarrow> world \<Rightarrow> (unit result) option" where
  "pullChannel fuel env gid cid after w =
     (let filename = ''channels/'' @ gid @ ''/'' @ cid @ ''.tsv''
      in case OpenFile env filename w of
           (True, w) \<Rightarrow>
             Some (Inr (), log_Printf ''[%s/%s] error opening the log file: %v'' [gid, cid] w)
         | (False, w) \<Rightarrow> pullChannel_loop fuel env filename gid cid after w)"

section \<open>Package logpull: the orchestrator\<close>

text \<open>
  \<open>Pull\<close>. The directory of the channel file is \<open>channels/<guild id>\<close> (ids hold no
  slash). The gate \<open>fetchedGuilds\<close> is set before the cache is rebuilt and before the
  guild is fetched. The fuel is given to each of the two unbounded loops.
\<close>

definition Pull :: "nat \<Rightarrow> 'e env \<Rightarrow> Channel \<Rightarrow> world \<Rightarrow> (unit result) option" where
  "Pull fuel env c w =
     (let last = ''0'';
          filename = ''channels/'' @ Channel.GuildID c @ ''/'' @ Channel.ID c @ ''.tsv'';
          guildFilename = ''channels/'' @ Channel.GuildID c @ ''/guild.tsv''
      in if MkdirAll_err env (''channels/'' @ Channel.GuildID c) then
           Some (Inr (), log_Printf ''[%s/%s] creating the guild dir failed''
                           [Channel.GuildID c, Channel.ID c] w)
         else
           (case (if \<not> fetchedGuilds w (Channel.GuildID c) then
                    (let w = w\<lparr>fetchedGuilds := (fetchedGuilds w)(Channel.GuildID c := True)\<rparr>;
                         (err, cache) = (if Stat_ok guildFilename w
                                         then GuildCache guildFilename Map.empty w
                                         else (False, Map.empty))
                     in if err then
                          Some (Inr False,
                                log_Printf ''[%s] error reconstructing guild state, skipping (%v)''
                                  [Channel.GuildID c] w)
                        else (case pullGuild fuel env (Channel.GuildID c) cache w of
                                None \<Rightarrow> None
                              | Some (Inl e, w) \<Rightarrow> Some (Inl e, w)
                              | Some (Inr _, w) \<Rightarrow> Some (Inr True, w)))
                  else Some (Inr True, w)) of
              None \<Rightarrow> None
            | Some (Inl e, w) \<Rightarrow> Some (Inl e, w)
            | Some (Inr False, w) \<Rightarrow> Some (Inr (), w)
            | Some (Inr True, w) \<Rightarrow>
                (let (last, err) = (if Stat_ok filename w then LastMessageID filename w
                                    else (last, False))
                 in if err then
                      Some (Inr (),
                            log_Printf ''[%s/%s] error getting last message id, skipping (%v)''
                              [Channel.GuildID c, Channel.ID c] w)
                    else pullChannel fuel env (Channel.GuildID c) (Channel.ID c) last w)))"

section \<open>Notions used in the statements\<close>

text \<open>The sub-enum values that the three format functions have a case for.\<close>

definition known_message_types :: "int set" where
  "known_message_types =
     {MessageTypeDefault, MessageTypeRecipientAdd, MessageTypeRecipientRemove, MessageTypeCall,
      MessageTypeChannelNameChange, MessageTypeChannelIconChange,
      MessageTypeChannelPinnedMessage, MessageTypeGuildMemberJoin, MessageTypeReply,
      MessageTypeChatInputCommand}"

definition known_channel_types :: "int set" where
  "known_channel_types =
     {ChannelTypeGuildText, ChannelTypeGuildVoice, ChannelTypeGuildCategory, ChannelTypeDM,
      ChannelTypeGroupDM, ChannelTypeGuildNews, ChannelTypeGuildStore}"

definition known_overwrite_types :: "int set" where
  "known_overwrite_types = {PermissionOverwriteTypeRole, PermissionOverwriteTypeMember}"

text \<open>The entity as a returning call of \<open>Make\<close> leaves it.\<close>

definition after_Make :: "'e entity \<Rightarrow> 'e entity" where
  "after_Make v =
     (case v of
        EMember m \<Rightarrow> EMember (m\<lparr>Member.Roles := sort (Member.Roles m)\<rparr>)
      | _ \<Rightarrow> v)"

section \<open>Concrete inputs\<close>

definition a_user :: User where
  "a_user = \<lparr>User.ID = ''7'', Username = ''ann'', Discriminator = ''0001'', Avatar = ''av''\<rparr>"

definition a_message :: "unit Message" where
  "a_message = \<lparr>Message.ID = ''5'', Author = a_user, EditedTimestamp = None, TTS = False,
     Content = ''hi'', WebhookID = '''', Type = 0, MessageReference = None, Embeds = [],
     Attachments = [], Reactions = []\<rparr>"

definition a_channel :: Channel where
  "a_channel = \<lparr>Channel.ID = ''A'', GuildID = ''G'', Type = 0, Position = 0, Name = ''general'',
     Topic = '''', NSFW = False, ParentID = '''', Recipients = [], Icon = '''',
     PermissionOverwrites = []\<rparr>"

definition an_overwrite :: PermissionOverwrite where
  "an_overwrite = \<lparr>PermissionOverwrite.ID = ''R'', Type = 0, Allow = 1, Deny = 0\<rparr>"

definition a_member :: Member where
  "a_member = \<lparr>User = a_user, Nick = '''', Roles = [''b'', ''a'']\<rparr>"

section \<open>How a run changes the files\<close>

text \<open>
  \<open>appends f rows w w'\<close>: from \<open>w\<close> to \<open>w'\<close> the file \<open>f\<close> got \<open>rows\<close> at its end, every
  other file is as it was, and so is the gate. \<open>grows Q w w'\<close>: from \<open>w\<close> to \<open>w'\<close> every
  file kept its content and got rows at its end that all satisfy \<open>Q\<close>, no file
  disappeared, and the gate is as it was. \<open>written f w w'\<close> is what \<open>f\<close> holds in \<open>w'\<close>
  after the rows it held in \<open>w\<close>.
\<close>

definition appends :: "string \<Rightarrow> string list list \<Rightarrow> world \<Rightarrow> world \<Rightarrow> bool" where
  "appends f rows w w' =
     (content w' f = content w f @ rows \<and>
      (\<forall>p. p \<noteq> f \<longrightarrow> files w' p = files w p) \<and>
      (files w f \<noteq> None \<longrightarrow> files w' f \<noteq> None) \<and>
      fetchedGuilds w' = fetchedGuilds w)"

definition grows :: "(string list \<Rightarrow> bool) \<Rightarrow> world \<Rightarrow> world \<Rightarrow> bool" where
  "grows Q w w' =
     (fetchedGuilds w' = fetchedGuilds w \<and>
      (\<forall>p. (files w p \<noteq> None \<longrightarrow> files w' p \<noteq> None) \<and>
           (\<exists>rows. content w' p = content w p @ rows \<and> list_all Q rows)))"

definition written :: "string \<Rightarrow> world \<Rightarrow> world \<Rightarrow> string list list" where
  "written f w w' = drop (length (content w f)) (content w' f)"

text \<open>
  The slot of the cache that \<open>pullGuild\<close> compares a row with before it writes it: for
  the guild row the slot of the requested guild id, for a member row the slot under the
  key \<open>user\<close>, for the other rows the slot of the row's own type and id. A row is a
  \<open>detected_change\<close> when it is of one of the six guild-level types and \<open>Equals\<close> says that
  it differs from its slot.
\<close>

definition slot :: "string \<Rightarrow> EntryCache \<Rightarrow> string list \<Rightarrow> string list" where
  "slot gid cache row =
     (if row ! HType = ''guild'' then lookup cache ''guild'' gid
      else if row ! HType = ''member'' then lookup cache ''user'' (row ! HID)
      else lookup cache (row ! HType) (row ! HID))"

definition detected_change :: "string \<Rightarrow> EntryCache \<Rightarrow> string list \<Rightarrow> bool" where
  "detected_change gid cache row =
     (row ! HType \<in> {''guild'', ''channel'', ''permoverwrite'', ''role'', ''emoji'', ''member''} \<and>
      \<not> Equals (slot gid cache row) row)"

text \<open>The rows of a channel file.\<close>

definition message_family :: "string list \<Rightarrow> bool" where
  "message_family row = (row ! HType \<in> {''message'', ''embed'', ''attachment'', ''reaction''})"

definition is_message :: "string list \<Rightarrow> bool" where
  "is_message row = (row ! HType = ''message'')"

section \<open>Properties of the row encoder\<close>

lemmas enum_defs =
  MessageTypeDefault_def MessageTypeRecipientAdd_def MessageTypeRecipientRemove_def
  MessageTypeCall_def MessageTypeChannelNameChange_def MessageTypeChannelIconChange_def
  MessageTypeChannelPinnedMessage_def MessageTypeGuildMemberJoin_def MessageTypeReply_def
  MessageTypeChatInputCommand_def
  ChannelTypeGuildText_def ChannelTypeDM_def ChannelTypeGuildVoice_def ChannelTypeGroupDM_def
  ChannelTypeGuildCategory_def ChannelTypeGuildNews_def ChannelTypeGuildStore_def
  PermissionOverwriteTypeRole_def PermissionOverwriteTypeMember_def

lemma Itoa_2: "Itoa 2 = ''2''"
  by code_simp

lemma Itoa_99: "Itoa 99 = ''99''"
  by code_simp

lemma sort_sort: "sort (sort (xs::string list)) = sort xs"
  by (simp add: sorted_sort_id)

text \<open>The message row, column by column.\<close>

lemma Make_Message:
  "Make jm now ftype op (EMessage m) =
     Inr ([now, ftype, op, ''message'',
           Message.ID m, User.ID (Author m),
           (case EditedTimestamp m of None \<Rightarrow> '''' | Some t \<Rightarrow> t),
           formatBool ''tts'' (TTS m), Content m,
           formatBool ''webhook'' (WebhookID m \<noteq> ''''),
           (if WebhookID m = '''' then '''' else Username (Author m)),
           (if WebhookID m = '''' then '''' else User.Avatar (Author m)),
           fst (formatMessageType (Message.Type m)),
           (case MessageReference m of None \<Rightarrow> '''' | Some r \<Rightarrow> MessageReference.GuildID r),
           (case MessageReference m of None \<Rightarrow> '''' | Some r \<Rightarrow> MessageReference.ChannelID r),
           (case MessageReference m of None \<Rightarrow> '''' | Some r \<Rightarrow> MessageReference.MessageID r)],
          EMessage m, snd (formatMessageType (Message.Type m)))"
  by (simp add: Make_def Let_def split: option.split)

lemma formatMessageType_unknown:
  "t \<notin> known_message_types \<Longrightarrow>
     formatMessageType t = (''unknown-'' @ Itoa t, [(''unsupported message type %v'', [Itoa t])])"
  by (simp add: formatMessageType_def known_message_types_def)

lemma formatChannelType_unknown:
  "t \<notin> known_channel_types \<Longrightarrow> formatChannelType t = ''invalid''"
  by (simp add: formatChannelType_def known_channel_types_def)

lemma a_message_fields:
  "WebhookID a_message = ''''" "Username (Author a_message) = ''ann''"
  "User.Avatar (Author a_message) = ''av''"
  by (simp_all add: a_message_def a_user_def)

subsection \<open>Unknown sub-enum values\<close>

text \<open>
  C5, as the code has it. An unknown message type is rendered as \<open>unknown-N\<close> and an
  unknown channel type as \<open>invalid\<close>, and the row is produced with all its columns (16 and
  13 with the header). An unknown permission-overwrite type is not rendered: the encoder
  panics and produces no row.
\<close>

theorem unknown_subenum:
  "(Message.Type m \<notin> known_message_types \<longrightarrow>
      (\<exists>row lg. Make jm now ftype op (EMessage m) = Inr (row, EMessage m, lg) \<and>
         length row = 16 \<and> row ! 12 = ''unknown-'' @ Itoa (Message.Type m))) \<and>
   (Channel.Type c \<notin> known_channel_types \<longrightarrow>
      (\<exists>row. Make jm now ftype op (EChannel c) = Inr (row, EChannel c, []) \<and>
         length row = 13 \<and> row ! 5 = ''invalid'')) \<and>
   (PermissionOverwrite.Type ov \<notin> known_overwrite_types \<longrightarrow>
      Make jm now ftype op (EPermissionOverwrite ov) =
        Inl (Panic (''unsupported permission overwrite type '' @ Itoa (PermissionOverwrite.Type ov))))"
proof (intro conjI impI)
  assume "Message.Type m \<notin> known_message_types"
  then show "\<exists>row lg. Make jm now ftype op (EMessage m) = Inr (row, EMessage m, lg) \<and>
         length row = 16 \<and> row ! 12 = ''unknown-'' @ Itoa (Message.Type m)"
    by (simp add: Make_Message formatMessageType_unknown)
next
  assume "Channel.Type c \<notin> known_channel_types"
  then show "\<exists>row. Make jm now ftype op (EChannel c) = Inr (row, EChannel c, []) \<and>
         length row = 13 \<and> row ! 5 = ''invalid''"
    by (simp add: Make_def formatChannelType_unknown)
next
  assume "PermissionOverwrite.Type ov \<notin> known_overwrite_types"
  then show "Make jm now ftype op (EPermissionOverwrite ov) =
        Inl (Panic (''unsupported permission overwrite type '' @ Itoa (PermissionOverwrite.Type ov)))"
    by (simp add: Make_def formatPermOverwriteType_def known_overwrite_types_def)
qed

theorem unknown_subenum_witness:
  "(99::int) \<notin> known_message_types \<and> (42::int) \<notin> known_channel_types \<and>
   (2::int) \<notin> known_overwrite_types \<and>
   (\<exists>row lg. Make (\<lambda>e::unit. None) ''t'' ''history'' ''add''
                (EMessage (a_message\<lparr>Message.Type := 99\<rparr>))
              = Inr (row, EMessage (a_message\<lparr>Message.Type := 99\<rparr>), lg) \<and>
              length row = 16 \<and> row ! 12 = ''unknown-99'') \<and>
   (\<exists>row. Make (\<lambda>e::unit. None) ''t'' ''history'' ''add''
             (EChannel (a_channel\<lparr>Channel.Type := 42\<rparr>))
           = Inr (row, EChannel (a_channel\<lparr>Channel.Type := 42\<rparr>), []) \<and>
           length row = 13 \<and> row ! 5 = ''invalid'') \<and>
   Make (\<lambda>e::unit. None) ''t'' ''history'' ''add''
     (EPermissionOverwrite (an_overwrite\<lparr>PermissionOverwrite.Type := 2\<rparr>))
   = Inl (Panic ''unsupported permission overwrite type 2'')"
proof -
  have k: "(99::int) \<notin> known_message_types" "(42::int) \<notin> known_channel_types"
    "(2::int) \<notin> known_overwrite_types"
    by (simp_all add: known_message_types_def known_channel_types_def known_overwrite_types_def
          enum_defs)
  show ?thesis
    using k unknown_subenum [of "a_message\<lparr>Message.Type := 99\<rparr>" "\<lambda>e. None" "''t''" "''history''"
        "''add''" "a_channel\<lparr>Channel.Type := 42\<rparr>" "an_overwrite\<lparr>PermissionOverwrite.Type := 2\<rparr>"]
    by (simp add: Itoa_99 Itoa_2)
qed

text \<open>The claim C5 fails at a permission overwrite of type 2: the encoding aborts.\<close>

theorem overwrite_type_counterexample:
  "Make (\<lambda>e::unit. None) ''t'' ''history'' ''add''
     (EPermissionOverwrite \<lparr>PermissionOverwrite.ID = ''R'', Type = 2, Allow = 1, Deny = 0\<rparr>)
   = Inl (Panic ''unsupported permission overwrite type 2'')"
  by (simp add: Make_def formatPermOverwriteType_def enum_defs Itoa_2)

subsection \<open>The author override of a message row\<close>

text \<open>
  C10. A message is always encoded, into a row of 16 columns. Columns 10 and 11 (the
  author-override username and avatar) are both empty when the webhook id is empty, and
  are the author's username and avatar when it is not.
\<close>

theorem message_author_override:
  "\<exists>row lg. Make jm now ftype op (EMessage m) = Inr (row, EMessage m, lg) \<and>
     length row = 16 \<and>
     (WebhookID m = '''' \<longrightarrow> row ! 10 = '''' \<and> row ! 11 = '''') \<and>
     (WebhookID m \<noteq> '''' \<longrightarrow>
        row ! 10 = Username (Author m) \<and> row ! 11 = User.Avatar (Author m))"
  by (simp add: Make_Message)

theorem message_author_override_witness:
  "WebhookID a_message = '''' \<and> WebhookID (a_message\<lparr>WebhookID := ''9''\<rparr>) \<noteq> '''' \<and>
   (\<exists>row lg. Make (\<lambda>e::unit. None) ''t'' ''history'' ''add'' (EMessage a_message)
              = Inr (row, EMessage a_message, lg) \<and> row ! 10 = '''' \<and> row ! 11 = '''') \<and>
   (\<exists>row lg. Make (\<lambda>e::unit. None) ''t'' ''history'' ''add''
                (EMessage (a_message\<lparr>WebhookID := ''9''\<rparr>))
              = Inr (row, EMessage (a_message\<lparr>WebhookID := ''9''\<rparr>), lg) \<and>
              row ! 10 = ''ann'' \<and> row ! 11 = ''av'')"
proof -
  have 1: "\<exists>row lg. Make (\<lambda>e::unit. None) ''t'' ''history'' ''add'' (EMessage a_message)
              = Inr (row, EMessage a_message, lg) \<and> row ! 10 = '''' \<and> row ! 11 = ''''"
    using message_author_override [of "\<lambda>e. None" "''t''" "''history''" "''add''" a_message]
      a_message_fields
    by auto
  have 2: "\<exists>row lg. Make (\<lambda>e::unit. None) ''t'' ''history'' ''add''
                (EMessage (a_message\<lparr>WebhookID := ''9''\<rparr>))
              = Inr (row, EMessage (a_message\<lparr>WebhookID := ''9''\<rparr>), lg) \<and>
              row ! 10 = ''ann'' \<and> row ! 11 = ''av''"
    using message_author_override [of "\<lambda>e. None" "''t''" "''history''" "''add''"
      "a_message\<lparr>WebhookID := ''9''\<rparr>"] a_message_fields
    by auto
  show ?thesis using 1 2 a_message_fields by simp
qed

subsection \<open>What a call of the encoder changes\<close>

lemma Make_entity:
  "Make jm now ftype op v = Inr (row, v', lg) \<Longrightarrow> v' = after_Make v"
  by (cases v) (auto simp: Make_def after_Make_def Let_def split: sum.splits option.splits)

lemma Make_clock:
  "Make jm now ftype op v = Inr (row, v', lg) \<Longrightarrow>
   \<exists>fields. row = now # fields \<and> Make jm now' ftype op v = Inr (now' # fields, v', lg)"
  by (cases v) (auto simp: Make_def Let_def split: sum.splits option.splits)

lemma Make_again:
  "Make jm now ftype op v = Inr (row, v', lg) \<Longrightarrow>
   \<exists>fields. row = now # fields \<and> Make jm now' ftype op v' = Inr (now' # fields, v', lg)"
  by (cases v) (auto simp: Make_def Let_def sort_sort split: sum.splits option.splits)

lemma Make_a_member:
  "Make (\<lambda>e::unit. None) ''t'' ''history'' ''add'' (EMember a_member)
     = Inr ([''t'', ''history'', ''add'', ''member'', ''7'', ''ann'', ''0001'', ''av'', '''', ''a,b''],
            EMember (a_member\<lparr>Member.Roles := [''a'', ''b'']\<rparr>), [])"
proof -
  have "sort [''b'', ''a''] = [''a'', ''b'']" by code_simp
  then show ?thesis by (simp add: Make_def a_member_def a_user_def)
qed

text \<open>
  C8, as the code has it. A call of the encoder that returns leaves the entity as it was,
  except that it has sorted a member's role-id list in place. The row is the reading of
  the clock followed by columns that do not depend on the clock: encoding the same value
  at another reading \<open>now'\<close>, or encoding the entity again as the first call left it,
  gives the same columns after the timestamp, the same entity and the same log lines.
\<close>

theorem Make_effects:
  "Make jm now ftype op v = Inr (row, v', lg) \<Longrightarrow>
     v' = after_Make v \<and>
     (\<exists>fields. row = now # fields \<and>
        Make jm now' ftype op v = Inr (now' # fields, v', lg) \<and>
        Make jm now' ftype op v' = Inr (now' # fields, v', lg))"
  using Make_entity [of jm now ftype op v row v' lg] Make_clock [of jm now ftype op v row v' lg now']
    Make_again [of jm now ftype op v row v' lg now']
  by auto

theorem Make_effects_witness:
  "Make (\<lambda>e::unit. None) ''t'' ''history'' ''add'' (EMember a_member)
     = Inr ([''t'', ''history'', ''add'', ''member'', ''7'', ''ann'', ''0001'', ''av'', '''', ''a,b''],
            EMember (a_member\<lparr>Member.Roles := [''a'', ''b'']\<rparr>), []) \<and>
   EMember (a_member\<lparr>Member.Roles := [''a'', ''b'']\<rparr>) = after_Make (EMember a_member :: unit entity) \<and>
   Make (\<lambda>e::unit. None) ''u'' ''history'' ''add'' (EMember a_member)
     = Inr ([''u'', ''history'', ''add'', ''member'', ''7'', ''ann'', ''0001'', ''av'', '''', ''a,b''],
            EMember (a_member\<lparr>Member.Roles := [''a'', ''b'']\<rparr>), [])"
proof -
  note e = Make_effects [OF Make_a_member, of "''u''"]
  have a: "EMember (a_member\<lparr>Member.Roles := [''a'', ''b'']\<rparr>) = after_Make (EMember a_member :: unit entity)"
    by (rule e [THEN conjunct1])
  obtain fields where
    f: "[''t'', ''history'', ''add'', ''member'', ''7'', ''ann'', ''0001'', ''av'', '''', ''a,b'']
          = ''t'' # fields"
    and u: "Make (\<lambda>e::unit. None) ''u'' ''history'' ''add'' (EMember a_member)
          = Inr (''u'' # fields, EMember (a_member\<lparr>Member.Roles := [''a'', ''b'']\<rparr>), [])"
    using e [THEN conjunct2] by blast
  from f have "fields = [''history'', ''add'', ''member'', ''7'', ''ann'', ''0001'', ''av'', '''', ''a,b'']"
    by simp
  with u have b: "Make (\<lambda>e::unit. None) ''u'' ''history'' ''add'' (EMember a_member)
     = Inr ([''u'', ''history'', ''add'', ''member'', ''7'', ''ann'', ''0001'', ''av'', '''', ''a,b''],
            EMember (a_member\<lparr>Member.Roles := [''a'', ''b'']\<rparr>), [])"
    by simp
  show ?thesis
    by (intro conjI) (rule Make_a_member, rule a, rule b)
qed

text \<open>The claim C8 fails at a member with the role ids b, a: after the call the list
  of the entity is a, b.\<close>

theorem member_roles_counterexample:
  "Make (\<lambda>e::unit. None) ''t'' ''history'' ''add'' (EMember a_member)
     = Inr ([''t'', ''history'', ''add'', ''member'', ''7'', ''ann'', ''0001'', ''av'', '''', ''a,b''],
            EMember (a_member\<lparr>Member.Roles := [''a'', ''b'']\<rparr>), []) \<and>
   Member.Roles a_member \<noteq> [''a'', ''b'']"
  using Make_a_member by (simp add: a_member_def)

end
